theory Spec2Isabelle
  imports Complex_Main "HOL-Library.Word"
begin

section \<open>Python and NumPy values used by the handler\<close>

text \<open>
  The service of \<open>index.py\<close> is one Flask handler, \<open>predict\<close>, that sequences three
  pre-trained models. The models, OpenCV, Matplotlib and the file system are external
  collaborators: they are fields of an environment record and may raise. Everything the
  handler itself computes (thresholding, masking, argmax, label lookup, fusion, string
  formatting, the two \<open>try\<close> blocks) is defined below from the source.
\<close>

subsection \<open>Exceptions\<close>

text \<open>
  An exception is its class and its string form \<open>str(e)\<close>. A constructor stands for
  the class and its subclasses, as an \<open>except\<close> clause matches them.
\<close>

datatype pyexn =
    ValueError string
  | TypeError string
  | IndexError string
  | OverflowError string
  | OSError string
  | OtherError string

fun str_exn :: "pyexn \<Rightarrow> string" where
  "str_exn (ValueError m) = m"
| "str_exn (TypeError m) = m"
| "str_exn (IndexError m) = m"
| "str_exn (OverflowError m) = m"
| "str_exn (OSError m) = m"
| "str_exn (OtherError m) = m"

text \<open>The clause \<open>except (ValueError, TypeError)\<close> of the fusion step.\<close>

fun is_ValueError_or_TypeError :: "pyexn \<Rightarrow> bool" where
  "is_ValueError_or_TypeError (ValueError m) = True"
| "is_ValueError_or_TypeError (TypeError m) = True"
| "is_ValueError_or_TypeError e = False"

subsection \<open>Floating-point numbers\<close>

text \<open>
  A float is a finite value, an infinity or NaN. Finite arithmetic is exact here: the
  rounding of \<open>float32\<close> and \<open>float64\<close> is not modelled, the special values are.
\<close>

datatype pyfloat = Fin real | PInf | NInf | NaN

fun is_nan :: "pyfloat \<Rightarrow> bool" where
  "is_nan NaN = True"
| "is_nan x = False"

fun fadd :: "pyfloat \<Rightarrow> pyfloat \<Rightarrow> pyfloat" where
  "fadd NaN y = NaN"
| "fadd x NaN = NaN"
| "fadd PInf NInf = NaN"
| "fadd NInf PInf = NaN"
| "fadd PInf y = PInf"
| "fadd x PInf = PInf"
| "fadd NInf y = NInf"
| "fadd x NInf = NInf"
| "fadd (Fin a) (Fin b) = Fin (a + b)"

fun fmul :: "pyfloat \<Rightarrow> pyfloat \<Rightarrow> pyfloat" where
  "fmul NaN y = NaN"
| "fmul x NaN = NaN"
| "fmul (Fin a) (Fin b) = Fin (a * b)"
| "fmul PInf (Fin b) = (if b = 0 then NaN else if 0 < b then PInf else NInf)"
| "fmul NInf (Fin b) = (if b = 0 then NaN else if 0 < b then NInf else PInf)"
| "fmul (Fin a) PInf = (if a = 0 then NaN else if 0 < a then PInf else NInf)"
| "fmul (Fin a) NInf = (if a = 0 then NaN else if 0 < a then NInf else PInf)"
| "fmul PInf PInf = PInf"
| "fmul NInf NInf = PInf"
| "fmul PInf NInf = NInf"
| "fmul NInf PInf = NInf"

text \<open>Array division: a zero divisor gives an infinity or NaN, never an exception.\<close>

fun fdiv :: "pyfloat \<Rightarrow> pyfloat \<Rightarrow> pyfloat" where
  "fdiv NaN y = NaN"
| "fdiv x NaN = NaN"
| "fdiv (Fin a) (Fin b) =
     (if b = 0 then (if a = 0 then NaN else if 0 < a then PInf else NInf) else Fin (a / b))"
| "fdiv (Fin a) PInf = Fin 0"
| "fdiv (Fin a) NInf = Fin 0"
| "fdiv PInf (Fin b) = (if 0 \<le> b then PInf else NInf)"
| "fdiv NInf (Fin b) = (if 0 \<le> b then NInf else PInf)"
| "fdiv PInf PInf = NaN"
| "fdiv PInf NInf = NaN"
| "fdiv NInf PInf = NaN"
| "fdiv NInf NInf = NaN"

text \<open>Comparisons: every comparison with NaN is false.\<close>

fun fle :: "pyfloat \<Rightarrow> pyfloat \<Rightarrow> bool" where
  "fle NaN y = False"
| "fle x NaN = False"
| "fle NInf y = True"
| "fle x PInf = True"
| "fle PInf y = False"
| "fle x NInf = False"
| "fle (Fin a) (Fin b) = (a \<le> b)"

fun fgt :: "pyfloat \<Rightarrow> pyfloat \<Rightarrow> bool" where
  "fgt NaN y = False"
| "fgt x NaN = False"
| "fgt x PInf = False"
| "fgt NInf y = False"
| "fgt PInf y = True"
| "fgt x NInf = True"
| "fgt (Fin a) (Fin b) = (b < a)"

subsection \<open>\<open>numpy.argmax\<close> on a one-dimensional float array\<close>

text \<open>
  NumPy scans from index 0 and keeps the first maximal entry; a NaN counts as maximal
  and ends the scan. An empty array raises \<open>ValueError\<close>.
\<close>

fun argmax_loop :: "pyfloat list \<Rightarrow> nat \<Rightarrow> pyfloat \<Rightarrow> nat \<Rightarrow> nat" where
  "argmax_loop [] i mp max_ind = max_ind"
| "argmax_loop (x # xs) i mp max_ind =
     (if \<not> fle x mp
      then (if is_nan x then i else argmax_loop xs (Suc i) x i)
      else argmax_loop xs (Suc i) mp max_ind)"

definition np_argmax :: "pyfloat list \<Rightarrow> pyexn + nat" where
  "np_argmax xs =
     (case xs of
        [] \<Rightarrow> Inl (ValueError ''attempt to get argmax of an empty sequence'')
      | x # rest \<Rightarrow> Inr (if is_nan x then 0 else argmax_loop rest 1 x 0))"

subsection \<open>Indexing and string building\<close>

definition py_index :: "'a list \<Rightarrow> nat \<Rightarrow> pyexn + 'a" where
  "py_index xs i = (if i < length xs then Inr (xs ! i) else Inl (IndexError ''index out of range''))"

fun collect :: "(pyexn + 'a) list \<Rightarrow> pyexn + 'a list" where
  "collect [] = Inr []"
| "collect (r # rs) =
     (case r of
        Inl e \<Rightarrow> Inl e
      | Inr x \<Rightarrow> (case collect rs of Inl e \<Rightarrow> Inl e | Inr xs \<Rightarrow> Inr (x # xs)))"

fun str_join :: "string \<Rightarrow> string list \<Rightarrow> string" where
  "str_join sep [] = []"
| "str_join sep [x] = x"
| "str_join sep (x # y # ys) = x @ sep @ str_join sep (y # ys)"

fun show_nat :: "nat \<Rightarrow> string" where
  "show_nat n =
     (if n < 10 then [''0123456789'' ! n]
      else show_nat (n div 10) @ [''0123456789'' ! (n mod 10)])"

declare show_nat.simps [simp del]

definition round_half_even :: "real \<Rightarrow> nat" where
  "round_half_even x =
     (let f = nat \<lfloor>x\<rfloor>; r = x - real f
      in if r < 1 / 2 then f else if 1 / 2 < r then f + 1 else if even f then f else f + 1)"

text \<open>
  The format specification \<open>.df\<close> of an f-string: \<open>d\<close> digits after the point, the
  exact value rounded half to even, a minus sign for a negative value.
\<close>

definition format_f :: "nat \<Rightarrow> pyfloat \<Rightarrow> string" where
  "format_f d x =
     (case x of
        NaN \<Rightarrow> ''nan''
      | PInf \<Rightarrow> ''inf''
      | NInf \<Rightarrow> ''-inf''
      | Fin r \<Rightarrow>
          (let n = round_half_even (\<bar>r\<bar> * 10 ^ d);
               ip = show_nat (n div 10 ^ d);
               fp = show_nat (n mod 10 ^ d)
           in (if r < 0 then ''-'' else '''') @ ip @
              (if d = 0 then '''' else ''.'' @ replicate (d - length fp) (CHR ''0'') @ fp)))"

subsection \<open>The prediction of the metadata model\<close>

text \<open>
  The type of \<open>nlp_pred\<close> is not known to the handler, which only applies \<open>float\<close>,
  \<open>str\<close> and the empty format to it. The value is these observations: what
  \<open>float(nlp_pred)\<close> returns or raises, and the string \<open>str(nlp_pred)\<close>.
\<close>

record pyobj =
  py_float :: "pyexn + pyfloat"
  py_str :: string

subsection \<open>Arrays\<close>

text \<open>
  A NumPy array is its shape and its entries by multi-index. Only indices inside the
  shape are meaningful.
\<close>

record 'a ndarray =
  shape :: "nat list"
  elem :: "nat list \<Rightarrow> 'a"

definition np_map :: "('a \<Rightarrow> 'b) \<Rightarrow> 'a ndarray \<Rightarrow> 'b ndarray" where
  "np_map f a = \<lparr>shape = shape a, elem = (\<lambda>idx. f (elem a idx))\<rparr>"

text \<open>\<open>np.expand_dims(a, axis=0)\<close>\<close>

definition np_expand_dims0 :: "'a ndarray \<Rightarrow> 'a ndarray" where
  "np_expand_dims0 a = \<lparr>shape = 1 # shape a, elem = (\<lambda>idx. elem a (tl idx))\<rparr>"

text \<open>\<open>a.squeeze()\<close> removes every axis of length one.\<close>

fun unsqueeze :: "nat list \<Rightarrow> nat list \<Rightarrow> nat list" where
  "unsqueeze [] idx = []"
| "unsqueeze (d # ds) idx =
     (if d = 1 then 0 # unsqueeze ds idx
      else (case idx of [] \<Rightarrow> [] | i # rest \<Rightarrow> i # unsqueeze ds rest))"

definition np_squeeze :: "'a ndarray \<Rightarrow> 'a ndarray" where
  "np_squeeze a =
     \<lparr>shape = filter (\<lambda>d. d \<noteq> 1) (shape a),
      elem = (\<lambda>idx. elem a (unsqueeze (shape a) idx))\<rparr>"

text \<open>\<open>a[:, :, np.newaxis]\<close> needs two axes to slice and inserts a third of length one.\<close>

definition np_newaxis2 :: "'a ndarray \<Rightarrow> pyexn + 'a ndarray" where
  "np_newaxis2 a =
     (if length (shape a) < 2 then Inl (IndexError ''too many indices for array'')
      else Inr \<lparr>shape = take 2 (shape a) @ [1] @ drop 2 (shape a),
                elem = (\<lambda>idx. elem a (take 2 idx @ drop 3 idx))\<rparr>)"

text \<open>\<open>np.repeat(a, n, axis=-1)\<close> repeats each entry \<open>n\<close> times along the last axis.\<close>

definition np_repeat_last :: "nat \<Rightarrow> 'a ndarray \<Rightarrow> pyexn + 'a ndarray" where
  "np_repeat_last n a =
     (if shape a = [] then Inl (ValueError ''axis -1 is out of bounds for array of dimension 0'')
      else Inr \<lparr>shape = butlast (shape a) @ [n * last (shape a)],
                elem = (\<lambda>idx. elem a (butlast idx @ [last idx div n]))\<rparr>)"

text \<open>
  Broadcasting aligns two shapes at their last axes; two lengths agree when they are
  equal or one of them is one.
\<close>

fun broadcast_dims :: "nat list \<Rightarrow> nat list \<Rightarrow> nat list option" where
  "broadcast_dims [] ys = Some ys"
| "broadcast_dims (x # xs) [] = Some (x # xs)"
| "broadcast_dims (x # xs) (y # ys) =
     (if x = y \<or> y = 1 then map_option (Cons x) (broadcast_dims xs ys)
      else if x = 1 then map_option (Cons y) (broadcast_dims xs ys)
      else None)"

definition broadcast_shapes :: "nat list \<Rightarrow> nat list \<Rightarrow> nat list option" where
  "broadcast_shapes s t = map_option rev (broadcast_dims (rev s) (rev t))"

definition broadcast_index :: "nat list \<Rightarrow> nat list \<Rightarrow> nat list" where
  "broadcast_index s idx =
     map (\<lambda>(d, i). if d = 1 then 0 else i) (zip s (drop (length idx - length s) idx))"

definition np_multiply :: "pyfloat ndarray \<Rightarrow> pyfloat ndarray \<Rightarrow> pyexn + pyfloat ndarray" where
  "np_multiply a b =
     (case broadcast_shapes (shape a) (shape b) of
        None \<Rightarrow> Inl (ValueError ''operands could not be broadcast together'')
      | Some s \<Rightarrow>
          Inr \<lparr>shape = s,
               elem = (\<lambda>idx. fmul (elem a (broadcast_index (shape a) idx))
                                   (elem b (broadcast_index (shape b) idx)))\<rparr>)"

text \<open>
  \<open>a[m] = v\<close> for a boolean array \<open>m\<close>: the shape of \<open>m\<close> has to match the leading
  axes of \<open>a\<close>, and \<open>v\<close> fills the remaining axis.
\<close>

definition np_mask_assign :: "'a ndarray \<Rightarrow> bool ndarray \<Rightarrow> 'a list \<Rightarrow> pyexn + 'a ndarray" where
  "np_mask_assign a m v =
     (if shape m \<noteq> take (length (shape m)) (shape a)
      then Inl (IndexError ''boolean index did not match indexed array'')
      else if drop (length (shape m)) (shape a) \<noteq> [length v]
      then Inl (ValueError ''shape mismatch: value array could not be broadcast'')
      else Inr \<lparr>shape = shape a,
                elem = (\<lambda>idx. if elem m (take (length (shape m)) idx) then v ! last idx
                               else elem a idx)\<rparr>)"

text \<open>\<open>cv2.cvtColor(img, cv2.COLOR_BGR2RGB)\<close> reverses the three channels of a pixel.\<close>

definition cvtColor_BGR2RGB :: "'a ndarray \<Rightarrow> 'a ndarray" where
  "cvtColor_BGR2RGB img =
     \<lparr>shape = shape img, elem = (\<lambda>idx. elem img (butlast idx @ [2 - last idx]))\<rparr>"

section \<open>The service\<close>

subsection \<open>Constants, requests, responses and collaborators\<close>

definition allowed_origin :: string where
  "allowed_origin = ''https://skin-lesion-classifier.vercel.app''"

definition UPLOAD_FOLDER :: string where
  "UPLOAD_FOLDER = ''uploads''"

definition CLASS_LABELS :: "string list" where
  "CLASS_LABELS = [''bkl'', ''nv'', ''df'', ''mel'', ''vasc'', ''bcc'', ''akiec'']"

type_synonym bytes = "8 word list"

type_synonym image = "8 word ndarray"

datatype http_method = POST | OPTIONS

record file_storage =
  filename :: string
  content :: bytes

record request =
  req_method :: http_method
  files :: "string \<rightharpoonup> file_storage"
  form :: "string \<rightharpoonup> string"

record response =
  status :: nat
  headers :: "(string \<times> string) list"
  body :: "(string \<times> string) list"

datatype model = Segmentation | Classification | Metadata

text \<open>
  What a request can change: the files on disk, and the record of the model invocations
  made so far (a trace, kept to state which models a request reaches).
\<close>

record world =
  fs :: "string \<rightharpoonup> bytes"
  invoked :: "model list"

text \<open>
  The collaborators. \<open>write_error\<close> is the error of opening a path for writing, if any;
  \<open>imdecode\<close> is the image codec of \<open>cv2.imread\<close> (\<open>None\<close> when the bytes are no image);
  \<open>resample\<close> is the interpolation of \<open>cv2.resize\<close>; the three models return a batch of
  outputs; \<open>render_figure\<close> is the Matplotlib block of the handler (the four panels drawn
  from the masked image, the RGB image and the overlay, saved as PNG and encoded in
  base64).
\<close>

record env =
  write_error :: "string \<Rightarrow> pyexn option"
  imdecode :: "bytes \<Rightarrow> image option"
  resample :: "image \<Rightarrow> nat \<times> nat \<Rightarrow> nat list \<Rightarrow> 8 word"
  segmentation_model :: "pyfloat ndarray \<Rightarrow> pyexn + pyfloat ndarray list"
  classification_model :: "pyfloat ndarray \<Rightarrow> pyexn + pyfloat list list"
  nlp_model :: "(string \<times> string) list \<Rightarrow> pyexn + pyobj list"
  render_figure :: "pyfloat ndarray \<Rightarrow> image \<Rightarrow> image \<Rightarrow> pyexn + string"

subsection \<open>Sequencing with exceptions\<close>

type_synonym 'a io = "world \<Rightarrow> (pyexn + 'a) \<times> world"

definition returns :: "'a \<Rightarrow> 'a io" where
  "returns x = (\<lambda>s. (Inr x, s))"

definition raise :: "pyexn \<Rightarrow> 'a io" where
  "raise e = (\<lambda>s. (Inl e, s))"

definition lift :: "pyexn + 'a \<Rightarrow> 'a io" where
  "lift r = (\<lambda>s. (r, s))"

definition seq :: "'a io \<Rightarrow> ('a \<Rightarrow> 'b io) \<Rightarrow> 'b io" where
  "seq m f = (\<lambda>s. case m s of (Inl e, s') \<Rightarrow> (Inl e, s') | (Inr x, s') \<Rightarrow> f x s')"

definition invoke :: "model \<Rightarrow> pyexn + 'a \<Rightarrow> 'a io" where
  "invoke m r = (\<lambda>s. (r, s\<lparr>invoked := invoked s @ [m]\<rparr>))"

subsection \<open>Files and images\<close>

text \<open>\<open>os.path.join\<close> of two components on a POSIX system.\<close>

definition os_path_join :: "string \<Rightarrow> string \<Rightarrow> string" where
  "os_path_join a b =
     (if b \<noteq> [] \<and> hd b = CHR ''/'' then b
      else if a = [] \<or> last a = CHR ''/'' then a @ b
      else a @ ''/'' @ b)"

definition file_save :: "env \<Rightarrow> file_storage \<Rightarrow> string \<Rightarrow> unit io" where
  "file_save env image_file path =
     (\<lambda>s. case write_error env path of
             Some e \<Rightarrow> (Inl e, s)
           | None \<Rightarrow> (Inr (), s\<lparr>fs := (fs s)(path \<mapsto> content image_file)\<rparr>))"

definition cv2_imread :: "env \<Rightarrow> string \<Rightarrow> image option io" where
  "cv2_imread env path =
     (\<lambda>s. (Inr (case fs s path of None \<Rightarrow> None | Some b \<Rightarrow> imdecode env b), s))"

text \<open>\<open>cv2.resize(img, (width, height))\<close> of a colour image.\<close>

definition cv2_resize :: "env \<Rightarrow> image \<Rightarrow> nat \<times> nat \<Rightarrow> image" where
  "cv2_resize env img dsize =
     \<lparr>shape = [snd dsize, fst dsize, 3], elem = resample env img dsize\<rparr>"

definition form_get :: "request \<Rightarrow> string \<Rightarrow> string \<Rightarrow> string" where
  "form_get req k d = (case form req k of None \<Rightarrow> d | Some v \<Rightarrow> v)"

subsection \<open>The steps of \<open>predict\<close>\<close>

text \<open>Step 4: \<open>img_norm = orig_img.astype(np.float32) / 255.0\<close>\<close>

definition img_normalize :: "image \<Rightarrow> pyfloat ndarray" where
  "img_normalize orig_img = np_map (\<lambda>v. fdiv (Fin (real (unat v))) (Fin 255)) orig_img"

text \<open>Step 5: \<open>mask_bin = (mask_pred > 0.5).astype(np.float32).squeeze()\<close>\<close>

definition binarize :: "pyfloat ndarray \<Rightarrow> pyfloat ndarray" where
  "binarize mask_pred =
     np_squeeze (np_map (\<lambda>b. if b then Fin 1 else Fin 0)
                        (np_map (\<lambda>v. fgt v (Fin (1 / 2))) mask_pred))"

text \<open>
  Step 6: \<open>mask_3ch = np.repeat(mask_bin[:, :, np.newaxis], 3, axis=-1)\<close> and
  \<open>masked_img = img_norm * mask_3ch\<close>
\<close>

definition mask_image :: "pyfloat ndarray \<Rightarrow> pyfloat ndarray \<Rightarrow> pyexn + pyfloat ndarray" where
  "mask_image img_norm mask_bin =
     (case np_newaxis2 mask_bin of
        Inl e \<Rightarrow> Inl e
      | Inr mask_1ch \<Rightarrow>
          (case np_repeat_last 3 mask_1ch of
             Inl e \<Rightarrow> Inl e
           | Inr mask_3ch \<Rightarrow> np_multiply img_norm mask_3ch))"

text \<open>
  Step 7, after the classifier has run: the top index, its label (with the guard of the
  source), its confidence, and the string of all seven probabilities.
\<close>

definition cnn_summary :: "pyfloat list \<Rightarrow> pyexn + (nat \<times> string \<times> pyfloat \<times> string)" where
  "cnn_summary cnn_probs =
     (case np_argmax cnn_probs of
        Inl e \<Rightarrow> Inl e
      | Inr top_idx \<Rightarrow>
          (let top_class_label =
                 (if top_idx < length CLASS_LABELS then CLASS_LABELS ! top_idx else ''Unknown'')
           in case py_index cnn_probs top_idx of
                Inl e \<Rightarrow> Inl e
              | Inr top_class_conf \<Rightarrow>
                  (case collect
                          (map (\<lambda>i. case py_index cnn_probs i of
                                       Inl e \<Rightarrow> Inl e
                                     | Inr p \<Rightarrow> Inr (CLASS_LABELS ! i @ '': '' @ format_f 4 p))
                               [0..<length CLASS_LABELS]) of
                     Inl e \<Rightarrow> Inl e
                   | Inr entries \<Rightarrow>
                       Inr (top_idx, top_class_label, top_class_conf,
                            str_join '', '' entries))))"

text \<open>
  Step 9: the inner \<open>try\<close>. \<open>float(nlp_pred)\<close>, the average with every probability,
  the argmax and the label lookup; a \<open>ValueError\<close> or \<open>TypeError\<close> gives
  \<open>str(nlp_pred)\<close>, any other exception leaves the block.
\<close>

definition combine :: "pyfloat list \<Rightarrow> pyobj \<Rightarrow> pyexn + string" where
  "combine cnn_probs nlp_pred =
     (case py_float nlp_pred of
        Inl e \<Rightarrow> if is_ValueError_or_TypeError e then Inr (py_str nlp_pred) else Inl e
      | Inr nlp_pred_numeric \<Rightarrow>
          (let combined_pred = map (\<lambda>p. fdiv (fadd p nlp_pred_numeric) (Fin 2)) cnn_probs
           in case np_argmax combined_pred of
                Inl e \<Rightarrow> if is_ValueError_or_TypeError e then Inr (py_str nlp_pred) else Inl e
              | Inr final_idx \<Rightarrow> py_index CLASS_LABELS final_idx))"

text \<open>Step 10: \<open>overlay = orig_img_rgb.copy(); overlay[mask_bin > 0.5] = [255, 0, 0]\<close>\<close>

definition make_overlay :: "image \<Rightarrow> pyfloat ndarray \<Rightarrow> pyexn + image" where
  "make_overlay orig_img_rgb mask_bin =
     np_mask_assign orig_img_rgb (np_map (\<lambda>v. fgt v (Fin (1 / 2))) mask_bin) [255, 0, 0]"

text \<open>The local variables of the handler when it reaches step 12.\<close>

record locals =
  orig_img :: image
  orig_img_rgb :: image
  img_norm :: "pyfloat ndarray"
  mask_pred :: "pyfloat ndarray"
  mask_bin :: "pyfloat ndarray"
  masked_img :: "pyfloat ndarray"
  cnn_probs :: "pyfloat list"
  top_idx :: nat
  top_class_label :: string
  top_class_conf :: pyfloat
  all_class_probs_str :: string
  nlp_pred :: pyobj
  final_label :: string
  plot_image_base64 :: string

text \<open>Steps 3 and 8: the four form fields, each defaulting to the empty string, as one row.\<close>

definition input_df :: "request \<Rightarrow> (string \<times> string) list" where
  "input_df req =
     [(''dx_type'', form_get req ''dx_type'' []),
      (''age'', form_get req ''age'' []),
      (''sex'', form_get req ''sex'' []),
      (''localization'', form_get req ''localization'' [])]"

text \<open>
  Steps 4 to 11 on a decoded image, in the order of the source. The figure is drawn by
  one collaborator, after the overlay has been computed.
\<close>

definition analyse :: "env \<Rightarrow> (string \<times> string) list \<Rightarrow> image \<Rightarrow> locals io" where
  "analyse env row img =
     (let oimg = cv2_resize env img (224, 224);
          rgb = cvtColor_BGR2RGB oimg;
          inorm = img_normalize oimg;
          img_batch = np_expand_dims0 inorm in
      seq (invoke Segmentation (segmentation_model env img_batch)) (\<lambda>seg_out.
      seq (lift (py_index seg_out 0)) (\<lambda>mpred.
      let mbin = binarize mpred in
      seq (lift (mask_image inorm mbin)) (\<lambda>masked.
      seq (invoke Classification (classification_model env (np_expand_dims0 masked))) (\<lambda>cls_out.
      seq (lift (py_index cls_out 0)) (\<lambda>probs.
      seq (lift (cnn_summary probs)) (\<lambda>(tidx, tlabel, tconf, all_str).
      seq (invoke Metadata (nlp_model env row)) (\<lambda>nlp_out.
      seq (lift (py_index nlp_out 0)) (\<lambda>npred.
      seq (lift (combine probs npred)) (\<lambda>flabel.
      seq (lift (make_overlay rgb mbin)) (\<lambda>overlay.
      seq (lift (render_figure env masked rgb overlay)) (\<lambda>plot.
      returns
        \<lparr>orig_img = oimg, orig_img_rgb = rgb, img_norm = inorm,
         mask_pred = mpred, mask_bin = mbin, masked_img = masked, cnn_probs = probs,
         top_idx = tidx, top_class_label = tlabel, top_class_conf = tconf,
         all_class_probs_str = all_str, nlp_pred = npred, final_label = flabel,
         plot_image_base64 = plot\<rparr>))))))))))))"

text \<open>
  Steps 2 to 11: the upload is saved under its own file name, read back and decoded;
  an upload that is no image raises \<open>ValueError\<close>.
\<close>

definition run_steps :: "env \<Rightarrow> request \<Rightarrow> file_storage \<Rightarrow> locals io" where
  "run_steps env req image_file =
     (let image_path = os_path_join UPLOAD_FOLDER (filename image_file) in
      seq (file_save env image_file image_path) (\<lambda>u.
      seq (cv2_imread env image_path) (\<lambda>r.
      case r of
        None \<Rightarrow> raise (ValueError (''Could not read image from path: '' @ image_path))
      | Some img \<Rightarrow> analyse env (input_df req) img)))"

text \<open>Step 12 and \<open>jsonify\<close>: a JSON object is the list of its keys and values.\<close>

definition success_body :: "locals \<Rightarrow> (string \<times> string) list" where
  "success_body v =
     [(''plot_image'', ''data:image/png;base64,'' @ plot_image_base64 v),
      (''cnn_output'',
         ''Predicted Class: '' @ top_class_label v @ '' (Confidence: '' @
         format_f 2 (top_class_conf v) @ '')''),
      (''all_class_probabilities'', all_class_probs_str v),
      (''nlp_output'', ''NLP Prediction: '' @ py_str (nlp_pred v)),
      (''segmentation_output'', ''U-Net Segmentation Applied''),
      (''final_output'', ''This disease is most probably classified as: '' @ final_label v)]"

definition jsonify :: "(string \<times> string) list \<Rightarrow> nat \<Rightarrow> response" where
  "jsonify d code = \<lparr>status = code, headers = [], body = d\<rparr>"

text \<open>The body of the outer \<open>try\<close>.\<close>

definition predict_try :: "env \<Rightarrow> request \<Rightarrow> response io" where
  "predict_try env req =
     (case files req ''image'' of
        None \<Rightarrow> returns (jsonify [(''error'', ''No image provided'')] 400)
      | Some image_file \<Rightarrow>
          seq (run_steps env req image_file) (\<lambda>v. returns (jsonify (success_body v) 200)))"

text \<open>The reply to a pre-flight request, with the three headers the handler sets.\<close>

definition options_response :: response where
  "options_response =
     \<lparr>status = 200,
      headers = [(''Access-Control-Allow-Origin'', allowed_origin),
                 (''Access-Control-Allow-Headers'', ''Content-Type,Authorization''),
                 (''Access-Control-Allow-Methods'', ''GET,POST,PUT,DELETE,OPTIONS'')],
      body = []\<rparr>"

text \<open>The handler: the pre-flight branch, then the outer \<open>try\<close> and its \<open>except Exception\<close>.\<close>

definition predict :: "env \<Rightarrow> request \<Rightarrow> world \<Rightarrow> response \<times> world" where
  "predict env req s =
     (if req_method req = OPTIONS then (options_response, s)
      else (case predict_try env req s of
              (Inr resp, s') \<Rightarrow> (resp, s')
            | (Inl e, s') \<Rightarrow> (jsonify [(''error'', str_exn e)] 500, s')))"

text \<open>\<open>add_cors_headers\<close>, run by the framework on every response.\<close>

definition add_cors_headers :: "response \<Rightarrow> response" where
  "add_cors_headers response =
     response\<lparr>headers := headers response @
        [(''Access-Control-Allow-Origin'', allowed_origin),
         (''Access-Control-Allow-Headers'', ''Content-Type,Authorization''),
         (''Access-Control-Allow-Methods'', ''GET,POST,PUT,DELETE,OPTIONS'')]\<rparr>"

section \<open>Concrete runs\<close>

text \<open>
  Stub collaborators with fixed outputs: a raw mask of 0.9 on the upper half of the
  image and 0.1 on the lower half, the probabilities
  \<open>[0.1, 0.6, 0.05, 0.05, 0.05, 0.1, 0.05]\<close>, and a metadata model that returns the
  given prediction. The directory \<open>uploads/\<close> cannot be opened as a file, and empty
  bytes are no image.
\<close>

definition demo_image :: image where
  "demo_image = \<lparr>shape = [224, 224, 3], elem = (\<lambda>idx. 128)\<rparr>"

definition demo_mask :: "pyfloat ndarray" where
  "demo_mask =
     \<lparr>shape = [224, 224, 1],
      elem = (\<lambda>idx. if hd idx < 112 then Fin (9 / 10) else Fin (1 / 10))\<rparr>"

definition demo_probs :: "pyfloat list" where
  "demo_probs =
     [Fin (1 / 10), Fin (6 / 10), Fin (5 / 100), Fin (5 / 100), Fin (5 / 100), Fin (1 / 10),
      Fin (5 / 100)]"

definition demo_env :: "pyobj \<Rightarrow> env" where
  "demo_env npred =
     \<lparr>write_error = (\<lambda>p. if p = ''uploads/'' then Some (OSError ''Is a directory'') else None),
      imdecode = (\<lambda>b. if b = [] then None else Some demo_image),
      resample = (\<lambda>img dsize idx. elem img idx),
      segmentation_model = (\<lambda>x. Inr [demo_mask]),
      classification_model = (\<lambda>x. Inr [demo_probs]),
      nlp_model = (\<lambda>row. Inr [npred]),
      render_figure = (\<lambda>m r ov. Inr ''iVBORw0KGgo='')\<rparr>"

definition demo_file :: "string \<Rightarrow> bytes \<Rightarrow> file_storage" where
  "demo_file name b = \<lparr>filename = name, content = b\<rparr>"

definition demo_request :: "(string \<rightharpoonup> file_storage) \<Rightarrow> request" where
  "demo_request fls =
     \<lparr>req_method = POST,
      files = fls,
      form = [''dx_type'' \<mapsto> ''histo'', ''age'' \<mapsto> ''45'', ''sex'' \<mapsto> ''male'',
              ''localization'' \<mapsto> ''back'']\<rparr>"

definition world0 :: world where
  "world0 = \<lparr>fs = Map.empty, invoked = []\<rparr>"

text \<open>Predictions of the metadata model: the float \<open>0.2\<close> and the label \<open>mel\<close>.\<close>

definition pred_number :: pyobj where
  "pred_number = \<lparr>py_float = Inr (Fin (2 / 10)), py_str = ''0.2''\<rparr>"

definition pred_label :: pyobj where
  "pred_label =
     \<lparr>py_float = Inl (ValueError ''could not convert string to float: mel''), py_str = ''mel''\<rparr>"

text \<open>
  A Python integer beyond the range of a float (\<open>10 ** 400\<close>): \<open>float\<close> raises
  \<open>OverflowError\<close>. And the float infinity.
\<close>

definition pred_huge_int :: pyobj where
  "pred_huge_int =
     \<lparr>py_float = Inl (OverflowError ''int too large to convert to float''),
      py_str = ''1'' @ replicate 400 (CHR ''0'')\<rparr>"


text \<open>A request with an upload and the four metadata fields.\<close>

definition demo_upload :: request where
  "demo_upload = demo_request [''image'' \<mapsto> demo_file ''lesion.png'' [137, 80, 78, 71]]"

section \<open>Properties\<close>

subsection \<open>Sequencing\<close>

lemma seq_Inr_iff:
  "seq m f s = (Inr y, s'') \<longleftrightarrow> (\<exists>x s'. m s = (Inr x, s') \<and> f x s' = (Inr y, s''))"
  by (auto simp: seq_def split: prod.splits sum.splits)

lemma lift_iff: "lift r s = (q, s') \<longleftrightarrow> r = q \<and> s' = s"
  by (auto simp: lift_def)

lemma invoke_iff: "invoke m r s = (q, s') \<longleftrightarrow> r = q \<and> s' = s\<lparr>invoked := invoked s @ [m]\<rparr>"
  by (auto simp: invoke_def)

lemma returns_iff: "returns x s = (q, s') \<longleftrightarrow> q = Inr x \<and> s' = s"
  by (auto simp: returns_def)

lemma py_index_0_iff: "py_index xs 0 = Inr x \<longleftrightarrow> (\<exists>rest. xs = x # rest)"
  by (cases xs) (auto simp: py_index_def)

subsection \<open>What a successful run has computed\<close>

lemma analyse_Inr:
  assumes "analyse env row img s = (Inr v, s')"
  shows "orig_img v = cv2_resize env img (224, 224)"
    and "orig_img_rgb v = cvtColor_BGR2RGB (orig_img v)"
    and "img_norm v = img_normalize (orig_img v)"
    and "\<exists>rest. segmentation_model env (np_expand_dims0 (img_norm v)) = Inr (mask_pred v # rest)"
    and "mask_bin v = binarize (mask_pred v)"
    and "mask_image (img_norm v) (mask_bin v) = Inr (masked_img v)"
    and "\<exists>rest. classification_model env (np_expand_dims0 (masked_img v)) = Inr (cnn_probs v # rest)"
    and "cnn_summary (cnn_probs v) =
           Inr (top_idx v, top_class_label v, top_class_conf v, all_class_probs_str v)"
    and "\<exists>rest. nlp_model env row = Inr (nlp_pred v # rest)"
    and "combine (cnn_probs v) (nlp_pred v) = Inr (final_label v)"
    and "\<exists>overlay. make_overlay (orig_img_rgb v) (mask_bin v) = Inr overlay \<and>
           render_figure env (masked_img v) (orig_img_rgb v) overlay = Inr (plot_image_base64 v)"
    and "s' = s\<lparr>invoked := invoked s @ [Segmentation, Classification, Metadata]\<rparr>"
  using assms
  by (auto simp: analyse_def Let_def seq_Inr_iff lift_iff invoke_iff returns_iff py_index_0_iff
           split: prod.splits)

lemma run_steps_Inr:
  assumes "run_steps env req image_file s = (Inr v, s')"
  shows "write_error env (os_path_join UPLOAD_FOLDER (filename image_file)) = None"
    and "\<exists>img. imdecode env (content image_file) = Some img \<and>
           analyse env (input_df req) img
             (s\<lparr>fs := (fs s)(os_path_join UPLOAD_FOLDER (filename image_file) \<mapsto>
                              content image_file)\<rparr>)
           = (Inr v, s')"
  using assms
  by (auto simp: run_steps_def Let_def seq_Inr_iff file_save_def cv2_imread_def raise_def
           split: option.splits)

lemma predict_success:
  assumes "req_method req = POST" and "files req ''image'' = Some image_file"
    and "run_steps env req image_file s = (Inr v, s')"
  shows "predict env req s = (jsonify (success_body v) 200, s')"
  using assms by (simp add: predict_def predict_try_def seq_def returns_def)


subsection \<open>The argmax, and the summary of the probabilities\<close>

lemma argmax_loop_less:
  "max_ind < i \<Longrightarrow> argmax_loop xs i mp max_ind < i + length xs"
proof (induction xs arbitrary: i mp max_ind)
  case Nil
  then show ?case by simp
next
  case (Cons x xs)
  have a: "argmax_loop xs (Suc i) x i < Suc i + length xs"
    by (rule Cons.IH) simp
  have b: "argmax_loop xs (Suc i) mp max_ind < Suc i + length xs"
    by (rule Cons.IH) (use Cons.prems in simp)
  from a b show ?case by simp
qed

lemma np_argmax_less: "np_argmax xs = Inr i \<Longrightarrow> i < length xs"
  using argmax_loop_less [of 0 1 "tl xs" "hd xs"]
  by (cases xs) (auto simp: np_argmax_def split: if_splits)

lemma np_argmax_total: "xs \<noteq> [] \<Longrightarrow> \<exists>i. np_argmax xs = Inr i"
  by (cases xs) (simp_all add: np_argmax_def)

lemma np_argmax_Inl: "np_argmax xs = Inl e \<Longrightarrow> xs = []"
  by (cases xs) (simp_all add: np_argmax_def)

lemma collect_map_Inr: "collect (map Inr ys) = Inr ys"
  by (induction ys) simp_all

lemma collect_Inr_D: "collect rs = Inr ys \<Longrightarrow> rs = map Inr ys"
proof (induction rs arbitrary: ys)
  case Nil
  then show ?case by simp
next
  case (Cons r rs)
  from Cons.prems obtain x xs where r: "r = Inr x" and c: "collect rs = Inr xs" and ys: "ys = x # xs"
    by (auto split: sum.splits)
  from Cons.IH [OF c] r ys show ?case by simp
qed

lemma collect_Inr_iff: "collect rs = Inr ys \<longleftrightarrow> rs = map Inr ys"
  using collect_Inr_D collect_map_Inr by blast


lemma cnn_summary_total:
  assumes "length CLASS_LABELS \<le> length probs"
  shows "\<exists>i c str. cnn_summary probs =
           Inr (i, (if i < length CLASS_LABELS then CLASS_LABELS ! i else ''Unknown''), c, str)
           \<and> np_argmax probs = Inr i"
proof -
  from assms have "probs \<noteq> []" by (auto simp: CLASS_LABELS_def)
  then obtain i where i: "np_argmax probs = Inr i" using np_argmax_total by blast
  then have il: "i < length probs" by (rule np_argmax_less)
  have "map (\<lambda>k. case py_index probs k of Inl e \<Rightarrow> Inl e
                     | Inr p \<Rightarrow> Inr (CLASS_LABELS ! k @ '': '' @ format_f 4 p))
               [0..<length CLASS_LABELS]
        = map Inr (map (\<lambda>k. CLASS_LABELS ! k @ '': '' @ format_f 4 (probs ! k)) [0..<length CLASS_LABELS])"
    using assms by (auto simp: py_index_def)
  then have "collect (map (\<lambda>k. case py_index probs k of Inl e \<Rightarrow> Inl e
                     | Inr p \<Rightarrow> Inr (CLASS_LABELS ! k @ '': '' @ format_f 4 p))
               [0..<length CLASS_LABELS])
        = Inr (map (\<lambda>k. CLASS_LABELS ! k @ '': '' @ format_f 4 (probs ! k)) [0..<length CLASS_LABELS])"
    by (simp only: collect_Inr_iff)
  with i il show ?thesis
    by (simp add: cnn_summary_def Let_def py_index_def)
qed

subsection \<open>The concrete runs, evaluated\<close>

lemma demo_summary:
  "cnn_summary demo_probs =
     Inr (1, ''nv'', Fin (6 / 10),
          ''bkl: 0.1000, nv: 0.6000, df: 0.0500, mel: 0.0500, vasc: 0.0500, bcc: 0.1000, akiec: 0.0500'')"
  by (simp add: demo_probs_def cnn_summary_def np_argmax_def py_index_def CLASS_LABELS_def
        format_f_def round_half_even_def Let_def upt_conv_Cons show_nat.simps)

lemma demo_path:
  "name \<noteq> [] \<Longrightarrow> hd name \<noteq> CHR ''/'' \<Longrightarrow> os_path_join UPLOAD_FOLDER name = ''uploads/'' @ name"
  by (simp add: os_path_join_def UPLOAD_FOLDER_def)

lemma demo_analyse_ok:
  assumes "combine demo_probs npred = Inr l"
  shows "\<exists>v. analyse (demo_env npred) row demo_image s =
               (Inr v, s\<lparr>invoked := invoked s @ [Segmentation, Classification, Metadata]\<rparr>) \<and>
             mask_pred v = demo_mask \<and> cnn_probs v = demo_probs \<and> top_idx v = 1 \<and>
             top_class_label v = ''nv'' \<and> top_class_conf v = Fin (6 / 10) \<and>
             all_class_probs_str v =
               ''bkl: 0.1000, nv: 0.6000, df: 0.0500, mel: 0.0500, vasc: 0.0500, bcc: 0.1000, akiec: 0.0500'' \<and>
             nlp_pred v = npred \<and> final_label v = l \<and> plot_image_base64 v = ''iVBORw0KGgo=''"
  using assms
  by (simp add: analyse_def Let_def seq_def invoke_def lift_def returns_def demo_env_def py_index_def
      mask_image_def img_normalize_def cv2_resize_def binarize_def np_squeeze_def np_map_def
      np_newaxis2_def np_repeat_last_def np_multiply_def broadcast_shapes_def demo_summary
      make_overlay_def np_mask_assign_def cvtColor_BGR2RGB_def demo_mask_def demo_image_def)

lemma demo_analyse_fail:
  assumes "combine demo_probs npred = Inl e"
  shows "analyse (demo_env npred) row demo_image s =
           (Inl e, s\<lparr>invoked := invoked s @ [Segmentation, Classification, Metadata]\<rparr>)"
  using assms
  by (simp add: analyse_def Let_def seq_def invoke_def lift_def returns_def demo_env_def py_index_def
      mask_image_def img_normalize_def cv2_resize_def binarize_def np_squeeze_def np_map_def
      np_newaxis2_def np_repeat_last_def np_multiply_def broadcast_shapes_def demo_summary
      demo_mask_def demo_image_def)

lemma demo_run_steps:
  assumes "b \<noteq> []" and "name \<noteq> []" and "hd name \<noteq> CHR ''/''"
  shows "run_steps (demo_env npred) req (demo_file name b) s =
           analyse (demo_env npred) (input_df req) demo_image (s\<lparr>fs := (fs s)(''uploads/'' @ name \<mapsto> b)\<rparr>)"
  using assms
  by (simp add: run_steps_def demo_path Let_def seq_def file_save_def cv2_imread_def demo_file_def)
     (simp add: demo_env_def)

lemma demo_run_ok:
  assumes "combine demo_probs npred = Inr l" and "b \<noteq> []" and "name \<noteq> []" and "hd name \<noteq> CHR ''/''"
  shows "\<exists>v. run_steps (demo_env npred) req (demo_file name b) s =
               (Inr v, s\<lparr>fs := (fs s)(''uploads/'' @ name \<mapsto> b),
                        invoked := invoked s @ [Segmentation, Classification, Metadata]\<rparr>) \<and>
             mask_pred v = demo_mask \<and> cnn_probs v = demo_probs \<and> top_idx v = 1 \<and>
             top_class_label v = ''nv'' \<and> top_class_conf v = Fin (6 / 10) \<and>
             all_class_probs_str v =
               ''bkl: 0.1000, nv: 0.6000, df: 0.0500, mel: 0.0500, vasc: 0.0500, bcc: 0.1000, akiec: 0.0500'' \<and>
             nlp_pred v = npred \<and> final_label v = l \<and> plot_image_base64 v = ''iVBORw0KGgo=''"
  using demo_analyse_ok [OF assms(1), of "input_df req" "s\<lparr>fs := (fs s)(''uploads/'' @ name \<mapsto> b)\<rparr>"]
  by (simp add: demo_run_steps [OF assms(2-4)])

lemma demo_response:
  assumes "combine demo_probs npred = Inr l" and "b \<noteq> []" and "name \<noteq> []" and "hd name \<noteq> CHR ''/''"
  shows "fst (predict (demo_env npred) (demo_request [''image'' \<mapsto> demo_file name b]) s) =
           jsonify
             [(''plot_image'', ''data:image/png;base64,iVBORw0KGgo=''),
              (''cnn_output'', ''Predicted Class: nv (Confidence: 0.60)''),
              (''all_class_probabilities'',
               ''bkl: 0.1000, nv: 0.6000, df: 0.0500, mel: 0.0500, vasc: 0.0500, bcc: 0.1000, akiec: 0.0500''),
              (''nlp_output'', ''NLP Prediction: '' @ py_str npred),
              (''segmentation_output'', ''U-Net Segmentation Applied''),
              (''final_output'', ''This disease is most probably classified as: '' @ l)] 200"
proof -
  let ?req = "demo_request [''image'' \<mapsto> demo_file name b]"
  from demo_run_ok [OF assms, of ?req s] obtain v s' where
    run: "run_steps (demo_env npred) ?req (demo_file name b) s = (Inr v, s')"
    and v: "top_class_label v = ''nv''" "top_class_conf v = Fin (6 / 10)"
      "all_class_probs_str v =
        ''bkl: 0.1000, nv: 0.6000, df: 0.0500, mel: 0.0500, vasc: 0.0500, bcc: 0.1000, akiec: 0.0500''"
      "nlp_pred v = npred" "final_label v = l" "plot_image_base64 v = ''iVBORw0KGgo=''"
    by blast
  have "predict (demo_env npred) ?req s = (jsonify (success_body v) 200, s')"
    by (rule predict_success [OF _ _ run]) (simp_all add: demo_request_def)
  then show ?thesis
    by (simp add: success_body_def v format_f_def round_half_even_def Let_def show_nat.simps)
qed

lemma demo_failure:
  assumes "combine demo_probs npred = Inl e" and "b \<noteq> []" and "name \<noteq> []" and "hd name \<noteq> CHR ''/''"
  shows "fst (predict (demo_env npred) (demo_request [''image'' \<mapsto> demo_file name b]) s) =
           jsonify [(''error'', str_exn e)] 500"
  by (simp add: predict_def predict_try_def demo_request_def seq_def
        demo_run_steps [OF assms(2-4)] demo_analyse_fail [OF assms(1)])

lemma demo_try_failure:
  assumes "combine demo_probs npred = Inl e" and "b \<noteq> []" and "name \<noteq> []" and "hd name \<noteq> CHR ''/''"
  shows "predict_try (demo_env npred) (demo_request [''image'' \<mapsto> demo_file name b]) s =
           (Inl e, s\<lparr>fs := (fs s)(''uploads/'' @ name \<mapsto> b),
                     invoked := invoked s @ [Segmentation, Classification, Metadata]\<rparr>)"
  by (simp add: predict_try_def demo_request_def seq_def
        demo_run_steps [OF assms(2-4)] demo_analyse_fail [OF assms(1)])

subsection \<open>Fusion\<close>


lemma combine_fallback:
  assumes "py_float npred = Inl e"
  shows "combine probs npred = (if is_ValueError_or_TypeError e then Inr (py_str npred) else Inl e)"
  using assms by (simp add: combine_def)

lemma final_output_field:
  assumes "req_method req = POST" and "files req ''image'' = Some image_file"
    and "run_steps env req image_file s = (Inr v, s')"
  shows "map_of (body (fst (predict env req s))) ''final_output'' =
           Some (''This disease is most probably classified as: '' @ final_label v)"
  by (simp add: predict_success [OF assms] jsonify_def success_body_def)




text \<open>
  C2, as amended. When \<open>float(nlp_pred)\<close> raises \<open>ValueError\<close> or \<open>TypeError\<close>, the
  fused label of a successful request is \<open>str(nlp_pred)\<close> verbatim, whatever the
  probabilities are (nothing is averaged), and \<open>final_output\<close> is the fixed sentence
  \<open>This disease is most probably classified as: \<close> followed by that string.
\<close>

theorem fusion_fallback_law:
  assumes "req_method req = POST" and "files req ''image'' = Some image_file"
    and "run_steps env req image_file s = (Inr v, s')"
    and "py_float (nlp_pred v) = Inl e" and "is_ValueError_or_TypeError e"
  shows "final_label v = py_str (nlp_pred v) \<and>
         map_of (body (fst (predict env req s))) ''final_output'' =
           Some (''This disease is most probably classified as: '' @ py_str (nlp_pred v)) \<and>
         (\<forall>probs. combine probs (nlp_pred v) = Inr (py_str (nlp_pred v))) \<and>
         (\<exists>rest. nlp_model env (input_df req) = Inr (nlp_pred v # rest))"
proof -
  from run_steps_Inr(2) [OF assms(3)] obtain img s0 where
    an: "analyse env (input_df req) img s0 = (Inr v, s')" by blast
  have c: "combine probs (nlp_pred v) = Inr (py_str (nlp_pred v))" for probs
    using combine_fallback [OF assms(4), of probs] assms(5) by simp
  with analyse_Inr(10) [OF an] have fl: "final_label v = py_str (nlp_pred v)" by simp
  from final_output_field [OF assms(1-3)] fl c analyse_Inr(9) [OF an] show ?thesis by simp
qed

theorem fusion_fallback_law_witness:
  "\<exists>v s'. req_method demo_upload = POST \<and>
     files demo_upload ''image'' = Some (demo_file ''lesion.png'' [137, 80, 78, 71]) \<and>
     run_steps (demo_env pred_label) demo_upload (demo_file ''lesion.png'' [137, 80, 78, 71]) world0
       = (Inr v, s') \<and>
     py_float (nlp_pred v) = Inl (ValueError ''could not convert string to float: mel'') \<and>
     is_ValueError_or_TypeError (ValueError ''could not convert string to float: mel'') \<and>
     final_label v = ''mel'' \<and>
     map_of (body (fst (predict (demo_env pred_label) demo_upload world0))) ''final_output'' =
       Some ''This disease is most probably classified as: mel''"
proof -
  have c: "combine demo_probs pred_label = Inr ''mel''"
    by (simp add: combine_def pred_label_def)
  from demo_run_ok [OF c, of "[137, 80, 78, 71]" "''lesion.png''" demo_upload world0]
  obtain v s' where
    run: "run_steps (demo_env pred_label) demo_upload
            (demo_file ''lesion.png'' [137, 80, 78, 71]) world0 = (Inr v, s')"
    and v: "nlp_pred v = pred_label" by auto
  have m: "req_method demo_upload = POST"
    and f: "files demo_upload ''image'' = Some (demo_file ''lesion.png'' [137, 80, 78, 71])"
    by (simp_all add: demo_upload_def demo_request_def)
  have n: "py_float (nlp_pred v) = Inl (ValueError ''could not convert string to float: mel'')"
    by (simp add: v pred_label_def)
  have t: "is_ValueError_or_TypeError (ValueError ''could not convert string to float: mel'')"
    by simp
  from fusion_fallback_law [OF m f run n t]
  have "final_label v = ''mel'' \<and>
        map_of (body (fst (predict (demo_env pred_label) demo_upload world0))) ''final_output'' =
          Some ''This disease is most probably classified as: mel''"
    by (simp add: v pred_label_def)
  with m f run n t show ?thesis by blast
qed

text \<open>
  C2 as stated fails: for the label \<open>mel\<close> the field \<open>final_output\<close> is the sentence
  ending in \<open>mel\<close>, not the string \<open>mel\<close> itself.
\<close>

theorem final_output_is_not_the_bare_string:
  "py_float pred_label = Inl (ValueError ''could not convert string to float: mel'') \<and>
   nlp_model (demo_env pred_label) (input_df demo_upload) = Inr [pred_label] \<and>
   status (fst (predict (demo_env pred_label) demo_upload world0)) = 200 \<and>
   map_of (body (fst (predict (demo_env pred_label) demo_upload world0))) ''final_output'' =
     Some ''This disease is most probably classified as: mel'' \<and>
   py_str pred_label = ''mel'' \<and>
   map_of (body (fst (predict (demo_env pred_label) demo_upload world0))) ''final_output'' \<noteq>
     Some (py_str pred_label)"
proof -
  have c: "combine demo_probs pred_label = Inr ''mel''"
    by (simp add: combine_def pred_label_def)
  have "fst (predict (demo_env pred_label) demo_upload world0) =
          jsonify
             [(''plot_image'', ''data:image/png;base64,iVBORw0KGgo=''),
              (''cnn_output'', ''Predicted Class: nv (Confidence: 0.60)''),
              (''all_class_probabilities'',
               ''bkl: 0.1000, nv: 0.6000, df: 0.0500, mel: 0.0500, vasc: 0.0500, bcc: 0.1000, akiec: 0.0500''),
              (''nlp_output'', ''NLP Prediction: '' @ py_str pred_label),
              (''segmentation_output'', ''U-Net Segmentation Applied''),
              (''final_output'', ''This disease is most probably classified as: '' @ ''mel'')] 200"
    unfolding demo_upload_def by (rule demo_response [OF c]) simp_all
  then show ?thesis
    by (simp add: jsonify_def pred_label_def demo_env_def)
qed

text \<open>
  C3, as amended. A \<open>ValueError\<close> or \<open>TypeError\<close> raised by the coercion gives the
  string fallback; any other exception of the coercion leaves the fusion step as it is.
  No \<open>ValueError\<close> or \<open>TypeError\<close> ever leaves the fusion step, and whatever leaves the
  outer \<open>try\<close> block becomes a 500 response with the exception's string form, so that no
  exception leaves the handler.
\<close>

theorem fusion_catches_value_and_type_errors:
  "(py_float npred = Inl e \<longrightarrow>
      combine probs npred =
        (if is_ValueError_or_TypeError e then Inr (py_str npred) else Inl e)) \<and>
   (combine probs npred = Inl x \<longrightarrow> \<not> is_ValueError_or_TypeError x) \<and>
   (req_method req = POST \<longrightarrow> predict_try env req s = (Inl x, s') \<longrightarrow>
      predict env req s = (jsonify [(''error'', str_exn x)] 500, s'))"
proof (intro conjI impI)
  assume "py_float npred = Inl e"
  then show "combine probs npred =
        (if is_ValueError_or_TypeError e then Inr (py_str npred) else Inl e)"
    by (rule combine_fallback)
next
  assume "combine probs npred = Inl x"
  then show "\<not> is_ValueError_or_TypeError x"
    by (auto simp: combine_def Let_def py_index_def split: sum.splits if_splits)
next
  assume "req_method req = POST" and "predict_try env req s = (Inl x, s')"
  then show "predict env req s = (jsonify [(''error'', str_exn x)] 500, s')"
    by (simp add: predict_def)
qed

theorem fusion_catches_value_and_type_errors_witness:
  "py_float pred_label = Inl (ValueError ''could not convert string to float: mel'') \<and>
   combine demo_probs pred_label = Inr ''mel'' \<and>
   combine (replicate 7 (Fin 0) @ [Fin 1]) pred_number = Inl (IndexError ''index out of range'') \<and>
   \<not> is_ValueError_or_TypeError (IndexError ''index out of range'') \<and>
   req_method demo_upload = POST \<and>
   predict_try (demo_env pred_huge_int) demo_upload world0 =
     (Inl (OverflowError ''int too large to convert to float''),
      world0\<lparr>fs := (fs world0)(''uploads/lesion.png'' \<mapsto> [137, 80, 78, 71]),
             invoked := invoked world0 @ [Segmentation, Classification, Metadata]\<rparr>) \<and>
   predict (demo_env pred_huge_int) demo_upload world0 =
     (jsonify [(''error'', ''int too large to convert to float'')] 500,
      world0\<lparr>fs := (fs world0)(''uploads/lesion.png'' \<mapsto> [137, 80, 78, 71]),
             invoked := invoked world0 @ [Segmentation, Classification, Metadata]\<rparr>)"
proof -
  have a: "py_float pred_label = Inl (ValueError ''could not convert string to float: mel'')"
    by (simp add: pred_label_def)
  have b: "combine (replicate 7 (Fin 0) @ [Fin 1]) pred_number = Inl (IndexError ''index out of range'')"
    by (simp add: combine_def pred_number_def np_argmax_def py_index_def CLASS_LABELS_def
          numeral_eq_Suc)
  have c: "combine demo_probs pred_huge_int = Inl (OverflowError ''int too large to convert to float'')"
    by (simp add: combine_def pred_huge_int_def)
  have m: "req_method demo_upload = POST" by (simp add: demo_upload_def demo_request_def)
  have t: "predict_try (demo_env pred_huge_int) demo_upload world0 =
     (Inl (OverflowError ''int too large to convert to float''),
      world0\<lparr>fs := (fs world0)(''uploads/lesion.png'' \<mapsto> [137, 80, 78, 71]),
             invoked := invoked world0 @ [Segmentation, Classification, Metadata]\<rparr>)"
    using demo_try_failure [OF c, of "[137, 80, 78, 71]" "''lesion.png''" world0]
    by (simp add: demo_upload_def)
  note th1 = fusion_catches_value_and_type_errors
    [where npred = pred_label and e = "ValueError ''could not convert string to float: mel''"
       and probs = demo_probs]
  note th2 = fusion_catches_value_and_type_errors
    [where probs = "replicate 7 (Fin 0) @ [Fin 1]" and x = "IndexError ''index out of range''"
       and npred = pred_number]
  note th3 = fusion_catches_value_and_type_errors
    [where x = "OverflowError ''int too large to convert to float''" and req = demo_upload
       and env = "demo_env pred_huge_int" and s = world0]
  from th1 a have 1: "combine demo_probs pred_label = Inr ''mel''"
    by (simp add: pred_label_def)
  from th2 b have 2: "\<not> is_ValueError_or_TypeError (IndexError ''index out of range'')"
    by blast
  from th3 m t have 3: "predict (demo_env pred_huge_int) demo_upload world0 =
     (jsonify [(''error'', ''int too large to convert to float'')] 500,
      world0\<lparr>fs := (fs world0)(''uploads/lesion.png'' \<mapsto> [137, 80, 78, 71]),
             invoked := invoked world0 @ [Segmentation, Classification, Metadata]\<rparr>)"
    by simp
  from a 1 b 2 m t 3 show ?thesis by blast
qed

text \<open>
  C3 as stated fails: for an integer prediction too large for a float the coercion
  raises \<open>OverflowError\<close>, which the inner \<open>except (ValueError, TypeError)\<close> does not
  catch; the request ends in a 500 response instead of the string fallback.
\<close>

theorem overflow_error_escapes_the_fusion:
  "py_float pred_huge_int = Inl (OverflowError ''int too large to convert to float'') \<and>
   nlp_model (demo_env pred_huge_int) (input_df demo_upload) = Inr [pred_huge_int] \<and>
   combine demo_probs pred_huge_int = Inl (OverflowError ''int too large to convert to float'') \<and>
   combine demo_probs pred_huge_int \<noteq> Inr (py_str pred_huge_int) \<and>
   fst (predict (demo_env pred_huge_int) demo_upload world0) =
     jsonify [(''error'', ''int too large to convert to float'')] 500"
proof -
  have c: "combine demo_probs pred_huge_int = Inl (OverflowError ''int too large to convert to float'')"
    by (simp add: combine_def pred_huge_int_def)
  have "fst (predict (demo_env pred_huge_int) demo_upload world0) =
          jsonify [(''error'', str_exn (OverflowError ''int too large to convert to float''))] 500"
    unfolding demo_upload_def by (rule demo_failure [OF c]) simp_all
  with c show ?thesis by (simp add: pred_huge_int_def demo_env_def)
qed








subsection \<open>The top class\<close>

text \<open>
  C9. For a probability vector of length seven the summary of step 7 is computed without
  an exception, the argmax is an index of the seven labels, and the top class label is
  the label at that index: one of the seven, never the fallback \<open>Unknown\<close>.
\<close>

theorem top_index_in_range:
  assumes "length probs = 7"
  shows "\<exists>i c str. cnn_summary probs = Inr (i, CLASS_LABELS ! i, c, str) \<and>
           np_argmax probs = Inr i \<and> i < length CLASS_LABELS \<and>
           CLASS_LABELS ! i \<in> set CLASS_LABELS \<and> CLASS_LABELS ! i \<noteq> ''Unknown''"
proof -
  from assms have le: "length CLASS_LABELS \<le> length probs" by (simp add: CLASS_LABELS_def)
  from cnn_summary_total [OF le] obtain i c str where
    s: "cnn_summary probs =
          Inr (i, (if i < length CLASS_LABELS then CLASS_LABELS ! i else ''Unknown''), c, str)"
    and a: "np_argmax probs = Inr i" by blast
  from np_argmax_less [OF a] assms have il: "i < length CLASS_LABELS"
    by (simp add: CLASS_LABELS_def)
  then have mem: "CLASS_LABELS ! i \<in> set CLASS_LABELS" by simp
  have "''Unknown'' \<notin> set CLASS_LABELS" by (simp add: CLASS_LABELS_def)
  with mem have "CLASS_LABELS ! i \<noteq> ''Unknown''" by metis
  with s a il mem show ?thesis by auto
qed

theorem top_index_in_range_witness:
  "length demo_probs = 7 \<and>
   cnn_summary demo_probs =
     Inr (1, CLASS_LABELS ! 1, Fin (6 / 10),
          ''bkl: 0.1000, nv: 0.6000, df: 0.0500, mel: 0.0500, vasc: 0.0500, bcc: 0.1000, akiec: 0.0500'') \<and>
   CLASS_LABELS ! 1 \<in> set CLASS_LABELS \<and> CLASS_LABELS ! 1 \<noteq> ''Unknown''"
proof -
  have l: "length demo_probs = 7" by (simp add: demo_probs_def)
  from top_index_in_range [OF l] demo_summary
  have "CLASS_LABELS ! 1 \<in> set CLASS_LABELS \<and> CLASS_LABELS ! 1 \<noteq> ''Unknown''" by auto
  with l demo_summary show ?thesis by (simp add: CLASS_LABELS_def)
qed

subsection \<open>The string of all probabilities\<close>









subsection \<open>Segmentation and masking\<close>

lemma shape_cases:
  obtains "sh = []" | a where "sh = [a]" | a b where "sh = [a, b]"
    | a b c rest where "sh = a # b # c # rest"
  by (cases sh; cases "tl sh"; cases "tl (tl sh)") auto

lemma mask_image_Inr:
  assumes "mask_image a m = Inr r" and "shape a = [224, 224, 3]" and "1 \<notin> set (shape m)"
  shows "shape m = [224, 224]"
    and "shape r = [224, 224, 3]"
    and "elem r [i, j, k] = fmul (elem a [i, j, k]) (elem m [i, j])"
proof -
  have "shape m = [224, 224] \<and> shape r = [224, 224, 3] \<and>
        elem r [i, j, k] = fmul (elem a [i, j, k]) (elem m [i, j])"
  proof (cases "shape m" rule: shape_cases)
    case 1
    with assms(1) show ?thesis by (simp add: mask_image_def np_newaxis2_def)
  next
    case (2 x)
    with assms(1) show ?thesis by (simp add: mask_image_def np_newaxis2_def)
  next
    case (3 x y)
    with assms(3) have "x \<noteq> 1" "y \<noteq> 1" by auto
    with assms(1,2) 3 show ?thesis
      by (auto simp: mask_image_def np_newaxis2_def np_repeat_last_def np_multiply_def
            broadcast_shapes_def broadcast_index_def split: if_splits option.splits)
  next
    case (4 x y z rest)
    with assms(3) have "last (z # rest) \<noteq> 1" by (metis last_in_set list.distinct(1) list.set_intros(2))
    then have "3 * last (z # rest) \<noteq> 3" "3 * last (z # rest) \<noteq> 1" by auto
    then have "broadcast_dims [3, 224, 224] (3 * last (z # rest) # ys) = None" for ys
      by simp
    then have "broadcast_shapes [224, 224, 3] (butlast (x # y # 1 # z # rest) @ [3 * last (z # rest)]) = None"
      by (simp add: broadcast_shapes_def)
    with assms(1,2) 4 show ?thesis
      by (simp add: mask_image_def np_newaxis2_def np_repeat_last_def np_multiply_def)
  qed
  then show "shape m = [224, 224]"
    and "shape r = [224, 224, 3]"
    and "elem r [i, j, k] = fmul (elem a [i, j, k]) (elem m [i, j])" by simp_all
qed

lemma binarize_shape: "shape (binarize a) = shape (np_squeeze a)"
  by (simp add: binarize_def np_squeeze_def np_map_def)

lemma binarize_no_ones: "1 \<notin> set (shape (binarize a))"
  by (simp add: binarize_def np_squeeze_def np_map_def)

lemma binarize_elem:
  "elem (binarize a) idx = (if fgt (elem (np_squeeze a) idx) (Fin (1 / 2)) then Fin 1 else Fin 0)"
  by (simp add: binarize_def np_squeeze_def np_map_def)

lemma img_normalize_shape: "shape (img_normalize (cv2_resize env img (w, h))) = [h, w, 3]"
  by (simp add: img_normalize_def np_map_def cv2_resize_def)

lemma img_normalize_elem:
  "elem (img_normalize oimg) idx = Fin (real (unat (elem oimg idx)) / 255)"
  by (simp add: img_normalize_def np_map_def)

text \<open>
  C6. In every run that reaches the classifier, the squeezed raw mask is a 224 by 224
  array, and the masked image fed to the classifier has, at every pixel and in each of
  the three channels, the value of the normalised image where the raw mask value exceeds
  0.5 and zero where it does not. A mask of any other shape makes the masking step raise.
\<close>

theorem masked_image_pixels:
  assumes "run_steps env req image_file s = (Inr v, s')"
  shows "(\<exists>rest. segmentation_model env (np_expand_dims0 (img_norm v)) = Inr (mask_pred v # rest)) \<and>
         shape (np_squeeze (mask_pred v)) = [224, 224] \<and>
         shape (img_norm v) = [224, 224, 3] \<and>
         shape (masked_img v) = [224, 224, 3] \<and>
         (\<forall>i<224. \<forall>j<224. \<forall>k<3.
            elem (masked_img v) [i, j, k] =
              (if fgt (elem (np_squeeze (mask_pred v)) [i, j]) (Fin (1 / 2))
               then elem (img_norm v) [i, j, k] else Fin 0)) \<and>
         (\<exists>rest. classification_model env (np_expand_dims0 (masked_img v)) =
                   Inr (cnn_probs v # rest))"
proof -
  from run_steps_Inr(2) [OF assms] obtain img s0 where
    an: "analyse env (input_df req) img s0 = (Inr v, s')" by blast
  note a = analyse_Inr [OF an]
  have sn: "shape (img_norm v) = [224, 224, 3]"
    by (simp add: a(3) a(1) img_normalize_shape)
  have mi: "mask_image (img_norm v) (binarize (mask_pred v)) = Inr (masked_img v)"
    using a(6) by (simp add: a(5))
  note m = mask_image_Inr [OF mi sn binarize_no_ones]
  have px: "elem (masked_img v) [i, j, k] =
              (if fgt (elem (np_squeeze (mask_pred v)) [i, j]) (Fin (1 / 2))
               then elem (img_norm v) [i, j, k] else Fin 0)" for i j k
    by (simp add: m(3) binarize_elem a(3) img_normalize_elem)
  from a(4) a(7) m(1) m(2) sn px show ?thesis by (simp add: binarize_shape)
qed

theorem masked_image_pixels_witness:
  "\<exists>v s'. run_steps (demo_env pred_number) demo_upload (demo_file ''lesion.png'' [137, 80, 78, 71])
             world0 = (Inr v, s') \<and>
     mask_pred v = demo_mask \<and>
     shape (masked_img v) = [224, 224, 3] \<and>
     (0::nat) < 224 \<and> (200::nat) < 224 \<and> (0::nat) < 3 \<and>
     elem (np_squeeze (mask_pred v)) [0, 0] = Fin (9 / 10) \<and>
     elem (masked_img v) [0, 0, 0] = elem (img_norm v) [0, 0, 0] \<and>
     elem (np_squeeze (mask_pred v)) [200, 0] = Fin (1 / 10) \<and>
     elem (masked_img v) [200, 0, 0] = Fin 0"
proof -
  have c: "combine demo_probs pred_number = Inr ''nv''"
    by (simp add: combine_def pred_number_def demo_probs_def np_argmax_def py_index_def
          CLASS_LABELS_def)
  from demo_run_ok [OF c, of "[137, 80, 78, 71]" "''lesion.png''" demo_upload world0]
  obtain v s' where
    run: "run_steps (demo_env pred_number) demo_upload
            (demo_file ''lesion.png'' [137, 80, 78, 71]) world0 = (Inr v, s')"
    and v: "mask_pred v = demo_mask" by auto
  have hi: "elem (np_squeeze (mask_pred v)) [0, 0] = Fin (9 / 10)"
    and lo: "elem (np_squeeze (mask_pred v)) [200, 0] = Fin (1 / 10)"
    by (simp_all add: v demo_mask_def np_squeeze_def)
  from masked_image_pixels [OF run]
  have sh: "shape (masked_img v) = [224, 224, 3]"
    and px: "\<forall>i<224. \<forall>j<224. \<forall>k<3.
            elem (masked_img v) [i, j, k] =
              (if fgt (elem (np_squeeze (mask_pred v)) [i, j]) (Fin (1 / 2))
               then elem (img_norm v) [i, j, k] else Fin 0)"
    by blast+
  from px have "elem (masked_img v) [0, 0, 0] =
              (if fgt (elem (np_squeeze (mask_pred v)) [0, 0]) (Fin (1 / 2))
               then elem (img_norm v) [0, 0, 0] else Fin 0)" by simp
  with hi have p0: "elem (masked_img v) [0, 0, 0] = elem (img_norm v) [0, 0, 0]" by simp
  from px have "elem (masked_img v) [200, 0, 0] =
              (if fgt (elem (np_squeeze (mask_pred v)) [200, 0]) (Fin (1 / 2))
               then elem (img_norm v) [200, 0, 0] else Fin 0)" by simp
  with lo have p1: "elem (masked_img v) [200, 0, 0] = Fin 0" by simp
  from run v sh hi lo p0 p1 show ?thesis by auto
qed

subsection \<open>Repeated requests\<close>








subsection \<open>Requests that fail\<close>

text \<open>
  C4. A POST request whose files have no field \<open>image\<close> is answered with status 400 and
  a JSON body with the key \<open>error\<close>, whatever the collaborators are; the world is left as
  it was, so no model has been invoked and no file written.
\<close>

theorem missing_image_is_400:
  assumes "req_method req = POST" and "files req ''image'' = None"
  shows "status (fst (predict env req s)) = 400 \<and>
         map_of (body (fst (predict env req s))) ''error'' = Some ''No image provided'' \<and>
         snd (predict env req s) = s"
  using assms by (simp add: predict_def predict_try_def returns_def jsonify_def)

theorem missing_image_is_400_witness:
  "req_method (demo_request Map.empty) = POST \<and>
   files (demo_request Map.empty) ''image'' = None \<and>
   status (fst (predict (demo_env pred_number) (demo_request Map.empty) world0)) = 400 \<and>
   map_of (body (fst (predict (demo_env pred_number) (demo_request Map.empty) world0))) ''error''
     = Some ''No image provided'' \<and>
   invoked (snd (predict (demo_env pred_number) (demo_request Map.empty) world0)) = []"
  using missing_image_is_400 [of "demo_request Map.empty" "demo_env pred_number" world0]
  by (simp add: demo_request_def world0_def)

text \<open>
  C5. An upload that has been saved and decodes to no image makes the handler raise
  \<open>ValueError\<close> with the message \<open>Could not read image from path: \<close> and the path; the
  exception reaches the outer \<open>except\<close>, and the response has status 500 and the single
  key \<open>error\<close> with the string form of that exception. No model has been invoked.
\<close>

theorem unreadable_image_is_500:
  assumes "req_method req = POST" and "files req ''image'' = Some image_file"
    and "write_error env (os_path_join UPLOAD_FOLDER (filename image_file)) = None"
    and "imdecode env (content image_file) = None"
  shows "fst (predict_try env req s) =
           Inl (ValueError (''Could not read image from path: '' @
                            os_path_join UPLOAD_FOLDER (filename image_file))) \<and>
         status (fst (predict env req s)) = 500 \<and>
         body (fst (predict env req s)) =
           [(''error'', str_exn (ValueError (''Could not read image from path: '' @
                            os_path_join UPLOAD_FOLDER (filename image_file))))] \<and>
         invoked (snd (predict env req s)) = invoked s"
  using assms
  by (simp add: predict_def predict_try_def run_steps_def Let_def seq_def file_save_def
        cv2_imread_def raise_def jsonify_def)

theorem unreadable_image_is_500_witness:
  "req_method (demo_request [''image'' \<mapsto> demo_file ''empty.png'' []]) = POST \<and>
   files (demo_request [''image'' \<mapsto> demo_file ''empty.png'' []]) ''image'' =
     Some (demo_file ''empty.png'' []) \<and>
   write_error (demo_env pred_number) (os_path_join UPLOAD_FOLDER (filename (demo_file ''empty.png'' [])))
     = None \<and>
   imdecode (demo_env pred_number) (content (demo_file ''empty.png'' [])) = None \<and>
   status (fst (predict (demo_env pred_number)
                  (demo_request [''image'' \<mapsto> demo_file ''empty.png'' []]) world0)) = 500 \<and>
   body (fst (predict (demo_env pred_number)
                  (demo_request [''image'' \<mapsto> demo_file ''empty.png'' []]) world0)) =
     [(''error'', ''Could not read image from path: uploads/empty.png'')]"
proof -
  let ?f = "demo_file ''empty.png'' []"
  let ?req = "demo_request [''image'' \<mapsto> ?f]"
  have m: "req_method ?req = POST" and f: "files ?req ''image'' = Some ?f"
    by (simp_all add: demo_request_def)
  have p: "os_path_join UPLOAD_FOLDER (filename ?f) = ''uploads/empty.png''"
    by (simp add: os_path_join_def UPLOAD_FOLDER_def demo_file_def)
  have w: "write_error (demo_env pred_number) (os_path_join UPLOAD_FOLDER (filename ?f)) = None"
    by (simp add: p) (simp add: demo_env_def)
  have d: "imdecode (demo_env pred_number) (content ?f) = None"
    by (simp add: demo_env_def demo_file_def)
  from unreadable_image_is_500 [OF m f w d, of world0]
  have "status (fst (predict (demo_env pred_number) ?req world0)) = 500 \<and>
        body (fst (predict (demo_env pred_number) ?req world0)) =
          [(''error'', ''Could not read image from path: uploads/empty.png'')]"
    by (simp add: p)
  with m f w d show ?thesis by blast
qed

end
